theory Spec2Isabelle
  imports Main
begin

section \<open>The React client (frontend/src/App.jsx)\<close>

subsection \<open>Option tables\<close>

text \<open>
  The four constant arrays of the component (lines 14 to 17). The select boxes and the
  genre buttons are rendered from them, so they are the only values the user can pick.
\<close>

definition moods :: "string list" where
  "moods = [''Feel-good'', ''Thriller'', ''Mystery'', ''Emotional'', ''Light-hearted'',
            ''Dark'', ''Inspirational'']"

definition allGenres :: "string list" where
  "allGenres = [''Action'', ''Drama'', ''Comedy'', ''Thriller'', ''Sci-Fi'', ''Romance'',
                ''Horror'', ''Documentary'', ''Animation'', ''Fantasy'', ''Crime'',
                ''Adventure'']"

definition languages :: "string list" where
  "languages = [''English'', ''Hindi'', ''Spanish'', ''French'', ''Japanese'', ''Korean'',
                ''German'', ''Italian'', ''Chinese'', ''Any'']"

definition platforms :: "string list" where
  "platforms = [''Netflix'', ''Amazon Prime Video'', ''Disney+'', ''HBO Max'', ''Hulu'',
                ''Apple TV+'', ''Paramount+'', ''Any Platform'']"

subsection \<open>Component state\<close>

text \<open>
  One field per \<^verbatim>\<open>useState\<close> hook (lines 5 to 12). \<^verbatim>\<open>recommendations\<close> and
  \<^verbatim>\<open>error\<close> start as \<^verbatim>\<open>null\<close>, which is \<open>None\<close> here. The type \<open>'d\<close> is whatever
  \<^verbatim>\<open>response.json()\<close> yields: the handler stores it without looking inside.
\<close>

record 'd app_state =
  mood :: string
  genres :: "string list"
  language :: string
  platform :: string
  recommendations :: "'d option"
  loading :: bool
  error :: "string option"
  showInfo :: bool

definition initial_state :: "'d app_state" where
  "initial_state =
     \<lparr>mood = ''Feel-good'', genres = [''Drama''], language = ''English'',
      platform = ''Netflix'', recommendations = None, loading = False, error = None,
      showInfo = False\<rparr>"

subsection \<open>handleGenreToggle\<close>

text \<open>
  \<^verbatim>\<open>setGenres(prev => prev.includes(genre) ? prev.filter(g => g !== genre) : [...prev, genre])\<close>.
  The updater is a function of the previous list, so a run of clicks is a left fold of
  it over the clicked genres.
\<close>

definition handleGenreToggle :: "string \<Rightarrow> string list \<Rightarrow> string list" where
  "handleGenreToggle genre prev =
     (if genre \<in> set prev then filter (\<lambda>g. g \<noteq> genre) prev else prev @ [genre])"

definition toggles :: "string list \<Rightarrow> string list \<Rightarrow> string list" where
  "toggles clicks prev = foldl (\<lambda>s genre. handleGenreToggle genre s) prev clicks"

subsection \<open>handleGetRecommendations\<close>

text \<open>
  The body of the POST to \<^verbatim>\<open>/api/recommend\<close> (lines 42 to 47): the four current
  preference values under the keys \<^verbatim>\<open>mood\<close>, \<^verbatim>\<open>genres\<close>, \<^verbatim>\<open>language\<close>, \<^verbatim>\<open>platform\<close>.
\<close>

record request =
  req_mood :: string
  req_genres :: "string list"
  req_language :: string
  req_platform :: string

text \<open>
  What the awaited calls can do. \<^verbatim>\<open>fetch\<close> either rejects with an error value, whose
  \<^verbatim>\<open>message\<close> may be missing, or resolves to a response with its \<^verbatim>\<open>ok\<close> flag;
  \<^verbatim>\<open>response.json()\<close> in turn rejects or yields the decoded data, which is
  \<open>None\<close> when the body is the JSON value \<^verbatim>\<open>null\<close>.
\<close>

datatype 'd fetch_result =
    FetchRejected "string option"
  | FetchResponse bool "string option + 'd option"

definition request_body :: "'d app_state \<Rightarrow> request" where
  "request_body st =
     \<lparr>req_mood = mood st, req_genres = genres st, req_language = language st,
      req_platform = platform st\<rparr>"

text \<open>\<^verbatim>\<open>err.message || 'An error occurred while fetching recommendations'\<close>: an undefined
  or empty message is falsy and gives the fallback text.\<close>

definition error_message :: "string option \<Rightarrow> string" where
  "error_message m =
     (case m of
        None \<Rightarrow> ''An error occurred while fetching recommendations''
      | Some s \<Rightarrow> if s = [] then ''An error occurred while fetching recommendations'' else s)"

text \<open>
  The handler (lines 27 to 61) as a function from the network's behaviour and the state it
  was rendered with to the state after it has settled, together with the list of request
  bodies it sent. The guard returns before \<^verbatim>\<open>fetch\<close> is reached; the \<^verbatim>\<open>try\<close> block
  throws on a response that is not ok; \<^verbatim>\<open>catch\<close> stores the message; \<^verbatim>\<open>finally\<close>
  clears the loading flag.
\<close>

definition handleGetRecommendations ::
  "(request \<Rightarrow> 'd fetch_result) \<Rightarrow> 'd app_state \<Rightarrow> 'd app_state \<times> request list" where
  "handleGetRecommendations fetch st =
     (if length (genres st) = 0 then
        (st\<lparr>error := Some ''Please select at least one genre!''\<rparr>, [])
      else
        let st1 = st\<lparr>loading := True, error := None\<rparr>;
            body = request_body st;
            st2 = (case fetch body of
                     FetchRejected err \<Rightarrow> st1\<lparr>error := Some (error_message err)\<rparr>
                   | FetchResponse ok parsed \<Rightarrow>
                       if \<not> ok then
                         st1\<lparr>error := Some (error_message (Some ''Failed to get recommendations''))\<rparr>
                       else
                         (case parsed of
                            Inl err \<Rightarrow> st1\<lparr>error := Some (error_message err)\<rparr>
                          | Inr data \<Rightarrow> st1\<lparr>recommendations := data\<rparr>))
        in (st2\<lparr>loading := False\<rparr>, [body]))"

subsection \<open>The response data\<close>


section \<open>The request pipeline behind /api/recommend\<close>

text \<open>
  The client posts to a backend (\<^verbatim>\<open>backend/main.py\<close> in the README's project layout)
  whose code is not part of the sources. The definitions of this section follow the
  specification's description of the PreferenceNormalizer of that pipeline; the
  enumerations they validate against are the client's option tables above.
\<close>

subsection \<open>Data model\<close>

text \<open>
  Modelled from the spec: the validation errors of section 7 and the CanonicalPreferences
  record of section 3, whose declarations are not in the sources. An error is represented
  by its kind.
\<close>

datatype validation_kind =
  UnrecognizedMood | EmptyGenreSet | UnrecognizedLanguage | UnrecognizedPlatform

text \<open>RawPreferences is the request body itself: four untrusted fields.\<close>

type_synonym raw_preferences = request

record canonical_preferences =
  c_mood :: string
  c_genres :: "string list"
  c_language :: string
  c_platform :: string

subsection \<open>PreferenceNormalizer\<close>

text \<open>
  Modelled from the spec: the case-insensitive comparison of section 4.1, whose code is
  not in the sources. Letter case is folded over the ASCII letters; every other character
  is kept.
\<close>

definition to_lower :: "char \<Rightarrow> char" where
  "to_lower c =
     (case map_of (zip ''ABCDEFGHIJKLMNOPQRSTUVWXYZ'' ''abcdefghijklmnopqrstuvwxyz'') c of
        None \<Rightarrow> c
      | Some l \<Rightarrow> l)"

definition lower :: "string \<Rightarrow> string" where
  "lower s = map to_lower s"

text \<open>
  Modelled from the spec: the mood rule of \<^verbatim>\<open>normalize\<close> (section 4.1), whose code is
  not in the sources. A raw mood that matches an entry of the mood enumeration
  case-insensitively becomes that entry; any other fails with UnrecognizedMood.
\<close>

definition normalize_mood :: "string \<Rightarrow> validation_kind + string" where
  "normalize_mood m =
     (case find (\<lambda>e. lower e = lower m) moods of
        None \<Rightarrow> Inl UnrecognizedMood
      | Some e \<Rightarrow> Inr e)"

text \<open>
  Modelled from the spec: the genre rule of \<^verbatim>\<open>normalize\<close> (section 4.1), whose code is
  not in the sources. Entries outside the genre enumeration are dropped, duplicates are
  removed keeping each first occurrence in place, and an empty result fails with
  EmptyGenreSet.
\<close>

fun dedup :: "'a list \<Rightarrow> 'a list" where
  "dedup [] = []"
| "dedup (x # xs) = x # dedup (filter (\<lambda>y. y \<noteq> x) xs)"

definition canonical_genres :: "string list \<Rightarrow> string list" where
  "canonical_genres gs = dedup (filter (\<lambda>g. g \<in> set allGenres) gs)"

definition normalize_genres :: "string list \<Rightarrow> validation_kind + string list" where
  "normalize_genres gs =
     (if canonical_genres gs = [] then Inl EmptyGenreSet else Inr (canonical_genres gs))"

text \<open>
  Modelled from the spec: the language and platform rules of \<^verbatim>\<open>normalize\<close> (section
  4.1), whose code is not in the sources. A value is accepted when it is an entry of its
  enumeration, the wildcard entries \<^verbatim>\<open>Any\<close> and \<^verbatim>\<open>Any Platform\<close> included.
\<close>

definition normalize_language :: "string \<Rightarrow> validation_kind + string" where
  "normalize_language l = (if l \<in> set languages then Inr l else Inl UnrecognizedLanguage)"

definition normalize_platform :: "string \<Rightarrow> validation_kind + string" where
  "normalize_platform p = (if p \<in> set platforms then Inr p else Inl UnrecognizedPlatform)"

text \<open>
  Modelled from the spec: \<^verbatim>\<open>normalize(raw) -> CanonicalPreferences\<close> (section 4.1), whose
  code is not in the sources. The fields are validated in the order the section lists
  them, and the first failure is the result. (The name carries a suffix because
  \<open>normalize\<close> is a constant of the library.)
\<close>

definition normalize_preferences ::
  "raw_preferences \<Rightarrow> validation_kind + canonical_preferences" where
  "normalize_preferences raw =
     (case normalize_mood (req_mood raw) of
        Inl e \<Rightarrow> Inl e
      | Inr m \<Rightarrow>
          (case normalize_genres (req_genres raw) of
             Inl e \<Rightarrow> Inl e
           | Inr gs \<Rightarrow>
               (case normalize_language (req_language raw) of
                  Inl e \<Rightarrow> Inl e
                | Inr l \<Rightarrow>
                    (case normalize_platform (req_platform raw) of
                       Inl e \<Rightarrow> Inl e
                     | Inr p \<Rightarrow>
                         Inr \<lparr>c_mood = m, c_genres = gs, c_language = l,
                              c_platform = p\<rparr>))))"

section \<open>Auxiliary definitions\<close>

text \<open>Test doubles: a network that gives one fixed answer, and a backend that answers
  every request with one fixed generated text and the preferences it was sent.\<close>

definition network_stub :: "'d fetch_result \<Rightarrow> request \<Rightarrow> 'd fetch_result" where
  "network_stub answer body = answer"


text \<open>The position at which a value first occurs in a list (the length of the list when
  it does not occur).\<close>

definition first_index :: "'a \<Rightarrow> 'a list \<Rightarrow> nat" where
  "first_index x xs = length (takeWhile (\<lambda>y. y \<noteq> x) xs)"

section \<open>Properties of the client\<close>

subsection \<open>The genre selection\<close>

lemma handleGenreToggle_distinct:
  "distinct prev \<Longrightarrow> distinct (handleGenreToggle genre prev)"
  by (simp add: handleGenreToggle_def)

lemma toggles_distinct: "distinct prev \<Longrightarrow> distinct (toggles clicks prev)"
  unfolding toggles_def
  by (induction clicks arbitrary: prev) (simp_all add: handleGenreToggle_distinct)

lemma distinct_count_le_1: "distinct xs \<Longrightarrow> count_list xs x \<le> 1"
  by (induction xs) auto

text \<open>
  C9. Starting from the initial selection \<^verbatim>\<open>['Drama']\<close>, after any finite sequence of
  handleGenreToggle updates the genres list holds each genre at most once.
\<close>

theorem C9_genres_never_duplicated:
  "genres initial_state = [''Drama'']
   \<and> distinct (toggles clicks [''Drama''])
   \<and> count_list (toggles clicks [''Drama'']) genre \<le> 1"
proof -
  have d: "distinct (toggles clicks [''Drama''])"
    by (rule toggles_distinct) simp
  then have "count_list (toggles clicks [''Drama'']) genre \<le> 1"
    by (rule distinct_count_le_1)
  with d show ?thesis by (simp add: initial_state_def)
qed

text \<open>
  C10. For a genre that is not in the list, the handleGenreToggle update appends it at the
  end; applied to that longer list, the update removes it again; so applying the update
  twice in succession gives back exactly the list it started from.
\<close>

theorem C10_toggle_twice_absent:
  "genre \<notin> set s \<Longrightarrow>
     handleGenreToggle genre s = s @ [genre]
     \<and> handleGenreToggle genre (s @ [genre]) = s
     \<and> handleGenreToggle genre (handleGenreToggle genre s) = s"
  by (auto simp: handleGenreToggle_def filter_id_conv)

theorem C10_toggle_twice_absent_witness:
  "handleGenreToggle ''Comedy'' [''Drama'', ''Action''] = [''Drama'', ''Action''] @ [''Comedy'']
   \<and> handleGenreToggle ''Comedy'' ([''Drama'', ''Action''] @ [''Comedy''])
       = [''Drama'', ''Action'']
   \<and> handleGenreToggle ''Comedy'' (handleGenreToggle ''Comedy'' [''Drama'', ''Action''])
       = [''Drama'', ''Action'']"
  by (rule C10_toggle_twice_absent) simp

subsection \<open>The empty-selection guard\<close>






subsection \<open>Failed requests\<close>

lemma error_message_nonempty: "error_message m \<noteq> []"
  by (simp add: error_message_def split: option.splits)

lemma failed_call_state:
  assumes "genres st \<noteq> []"
    and "fetch (request_body st) = FetchRejected err
         \<or> fetch (request_body st) = FetchResponse False parsed
         \<or> fetch (request_body st) = FetchResponse True (Inl err)"
  shows "\<exists>msg. msg \<noteq> [] \<and>
           handleGetRecommendations fetch st
             = (st\<lparr>loading := False, error := Some msg\<rparr>, [request_body st])"
proof -
  from assms(2) consider
      (rejected) "fetch (request_body st) = FetchRejected err"
    | (not_ok) "fetch (request_body st) = FetchResponse False parsed"
    | (bad_json) "fetch (request_body st) = FetchResponse True (Inl err)"
    by blast
  then show ?thesis
  proof cases
    case rejected
    with assms(1) have "handleGetRecommendations fetch st
        = (st\<lparr>loading := False, error := Some (error_message err)\<rparr>, [request_body st])"
      by (simp add: handleGetRecommendations_def)
    then show ?thesis using error_message_nonempty by blast
  next
    case not_ok
    with assms(1) have "handleGetRecommendations fetch st
        = (st\<lparr>loading := False, error := Some ''Failed to get recommendations''\<rparr>,
           [request_body st])"
      by (simp add: handleGetRecommendations_def error_message_def)
    then show ?thesis by blast
  next
    case bad_json
    with assms(1) have "handleGetRecommendations fetch st
        = (st\<lparr>loading := False, error := Some (error_message err)\<rparr>, [request_body st])"
      by (simp add: handleGetRecommendations_def)
    then show ?thesis using error_message_nonempty by blast
  qed
qed

text \<open>
  C5. When the recommendation call fails, by a rejected \<^verbatim>\<open>fetch\<close> (transport failure), by
  a response that is not ok, or by a body that does not parse, an error is surfaced: the
  error state holds a non-empty message, the loading flag is cleared, and nothing else
  changes. In particular the recommendations shown before the request are left as they
  were; no partial result is stored.
\<close>

theorem C5_failed_call_keeps_recommendations:
  assumes "genres st \<noteq> []"
    and "fetch (request_body st) = FetchRejected err
         \<or> fetch (request_body st) = FetchResponse False parsed
         \<or> fetch (request_body st) = FetchResponse True (Inl err)"
  shows "(\<exists>msg. msg \<noteq> [] \<and>
            handleGetRecommendations fetch st
              = (st\<lparr>loading := False, error := Some msg\<rparr>, [request_body st]))
         \<and> recommendations (fst (handleGetRecommendations fetch st)) = recommendations st
         \<and> error (fst (handleGetRecommendations fetch st)) \<noteq> None"
proof -
  from assms have "\<exists>msg. msg \<noteq> [] \<and>
           handleGetRecommendations fetch st
             = (st\<lparr>loading := False, error := Some msg\<rparr>, [request_body st])"
    by (rule failed_call_state)
  then obtain msg where
    "msg \<noteq> []" and
    r: "handleGetRecommendations fetch st
          = (st\<lparr>loading := False, error := Some msg\<rparr>, [request_body st])"
    by blast
  have "recommendations (fst (handleGetRecommendations fetch st)) = recommendations st"
    and "error (fst (handleGetRecommendations fetch st)) \<noteq> None"
    by (simp_all add: r)
  with \<open>msg \<noteq> []\<close> r show ?thesis by blast
qed

theorem C5_failed_call_keeps_recommendations_witness:
  "recommendations (fst (handleGetRecommendations (network_stub (FetchRejected (Some ''Failed to fetch'')))
       (initial_state\<lparr>recommendations := Some ''1. Movie A''\<rparr>))) = Some ''1. Movie A''
   \<and> error (fst (handleGetRecommendations (network_stub (FetchRejected (Some ''Failed to fetch'')))
       (initial_state\<lparr>recommendations := Some ''1. Movie A''\<rparr>))) \<noteq> None
   \<and> recommendations (fst (handleGetRecommendations (network_stub (FetchResponse False (Inl None)))
       (initial_state\<lparr>recommendations := Some ''1. Movie A''\<rparr>))) = Some ''1. Movie A''
   \<and> error (fst (handleGetRecommendations (network_stub (FetchResponse False (Inl None)))
       (initial_state\<lparr>recommendations := Some ''1. Movie A''\<rparr>))) \<noteq> None"
proof -
  let ?st = "initial_state\<lparr>recommendations := Some ''1. Movie A''\<rparr> :: string app_state"
  let ?down = "network_stub (FetchRejected (Some ''Failed to fetch'')) :: request \<Rightarrow> string fetch_result"
  let ?refused = "network_stub (FetchResponse False (Inl None)) :: request \<Rightarrow> string fetch_result"
  have g: "genres ?st \<noteq> []" by (simp add: initial_state_def)
  have h1: "?down (request_body ?st) = FetchRejected (Some ''Failed to fetch'')
            \<or> ?down (request_body ?st) = FetchResponse False (Inl None)
            \<or> ?down (request_body ?st) = FetchResponse True (Inl (Some ''Failed to fetch''))"
    by (simp add: network_stub_def)
  have h2: "?refused (request_body ?st) = FetchRejected None
            \<or> ?refused (request_body ?st) = FetchResponse False (Inl None)
            \<or> ?refused (request_body ?st) = FetchResponse True (Inl None)"
    by (simp add: network_stub_def)
  have r: "recommendations ?st = Some ''1. Movie A''" by simp
  note a = C5_failed_call_keeps_recommendations
             [where st = ?st and fetch = ?down and err = "Some ''Failed to fetch''"
                and parsed = "Inl None", OF g h1]
  note b = C5_failed_call_keeps_recommendations
             [where st = ?st and fetch = ?refused and err = None and parsed = "Inl None",
              OF g h2]
  from a b r show ?thesis by simp
qed

subsection \<open>Successful requests\<close>




section \<open>Properties of the pipeline\<close>

subsection \<open>Genres\<close>

lemma set_dedup: "set (dedup xs) = set xs"
  by (induction xs rule: dedup.induct) auto

lemma distinct_dedup: "distinct (dedup xs)"
  by (induction xs rule: dedup.induct) (auto simp: set_dedup)

lemma dedup_snoc:
  "dedup (xs @ [x]) = (if x \<in> set xs then dedup xs else dedup xs @ [x])"
  by (induction xs rule: dedup.induct) auto

lemma canonical_genres_Nil: "canonical_genres [] = []"
  by (simp add: canonical_genres_def)

lemma canonical_genres_snoc:
  "canonical_genres (gs @ [g]) =
     (if g \<in> set allGenres \<and> g \<notin> set gs then canonical_genres gs @ [g]
      else canonical_genres gs)"
  by (simp add: canonical_genres_def dedup_snoc)

lemma set_canonical_genres: "set (canonical_genres gs) = set gs \<inter> set allGenres"
  by (auto simp: canonical_genres_def set_dedup)

lemma distinct_canonical_genres: "distinct (canonical_genres gs)"
  by (simp add: canonical_genres_def distinct_dedup)

lemma first_index_append:
  "a \<in> set xs \<Longrightarrow> first_index a (xs @ ys) = first_index a xs"
  by (simp add: first_index_def takeWhile_append1)

lemma first_index_less: "a \<in> set xs \<Longrightarrow> first_index a xs < length xs"
  unfolding first_index_def by (induction xs) auto

lemma first_index_fresh: "x \<notin> set xs \<Longrightarrow> first_index x (xs @ [x]) = length xs"
  unfolding first_index_def by (induction xs) auto

text \<open>The kept genres stand in the order in which they first occur in the input. The
  proof reads the input from left to right, one more entry at a time.\<close>

lemma canonical_genres_order:
  "sorted_wrt (\<lambda>a b. first_index a gs < first_index b gs) (canonical_genres gs)"
proof (induction gs rule: rev_induct)
  case Nil
  show ?case by (simp add: canonical_genres_Nil)
next
  case (snoc g gs)
  have keep: "sorted_wrt (\<lambda>a b. first_index a (gs @ [g]) < first_index b (gs @ [g]))
                (canonical_genres gs)"
  proof (rule sorted_wrt_mono_rel [OF _ snoc.IH])
    fix a b
    assume "a \<in> set (canonical_genres gs)" and "b \<in> set (canonical_genres gs)"
      and lt: "first_index a gs < first_index b gs"
    then have "a \<in> set gs" and "b \<in> set gs" by (simp_all add: set_canonical_genres)
    with lt show "first_index a (gs @ [g]) < first_index b (gs @ [g])"
      by (simp add: first_index_append)
  qed
  show ?case
  proof (cases "g \<in> set allGenres \<and> g \<notin> set gs")
    case False
    then have "canonical_genres (gs @ [g]) = canonical_genres gs"
      by (simp add: canonical_genres_snoc)
    with keep show ?thesis by simp
  next
    case True
    then have eq: "canonical_genres (gs @ [g]) = canonical_genres gs @ [g]"
      by (simp add: canonical_genres_snoc)
    have "first_index a (gs @ [g]) < first_index g (gs @ [g])"
      if "a \<in> set (canonical_genres gs)" for a
    proof -
      from that have "a \<in> set gs" by (simp add: set_canonical_genres)
      then have "first_index a (gs @ [g]) < length gs"
        by (simp add: first_index_append first_index_less)
      with True show ?thesis by (simp add: first_index_fresh)
    qed
    with keep show ?thesis by (simp add: eq sorted_wrt_append)
  qed
qed

text \<open>
  C3. Genre normalization removes duplicates and keeps the order of first occurrence:
  the genres \<^verbatim>\<open>["Drama","Drama","Sci-Fi"]\<close> normalize to exactly \<^verbatim>\<open>["Drama","Sci-Fi"]\<close>.
  In general the canonical genres are duplicate-free, are exactly the recognized entries
  of the input, and stand in the order of their first occurrences there; the only failure
  is EmptyGenreSet, when no entry is recognized; and the genres of a successfully
  normalized request are the result of this rule.
\<close>

theorem C3_genres_deduplicated_in_order:
  "normalize_genres [''Drama'', ''Drama'', ''Sci-Fi''] = Inr [''Drama'', ''Sci-Fi'']
   \<and> (case normalize_genres gs of
         Inl e \<Rightarrow> e = EmptyGenreSet \<and> set gs \<inter> set allGenres = {}
       | Inr cs \<Rightarrow>
           distinct cs \<and> set cs = set gs \<inter> set allGenres
           \<and> sorted_wrt (\<lambda>a b. first_index a gs < first_index b gs) cs)
   \<and> (case normalize_preferences raw of
         Inl e \<Rightarrow> True
       | Inr prefs \<Rightarrow> normalize_genres (req_genres raw) = Inr (c_genres prefs))"
proof (intro conjI)
  show "normalize_genres [''Drama'', ''Drama'', ''Sci-Fi''] = Inr [''Drama'', ''Sci-Fi'']"
    by (simp add: normalize_genres_def canonical_genres_def allGenres_def)
next
  show "case normalize_genres gs of
         Inl e \<Rightarrow> e = EmptyGenreSet \<and> set gs \<inter> set allGenres = {}
       | Inr cs \<Rightarrow>
           distinct cs \<and> set cs = set gs \<inter> set allGenres
           \<and> sorted_wrt (\<lambda>a b. first_index a gs < first_index b gs) cs"
  proof (cases "canonical_genres gs = []")
    case True
    then have "set (canonical_genres gs) = {}" by simp
    then have "set gs \<inter> set allGenres = {}" by (simp add: set_canonical_genres)
    with True show ?thesis by (simp add: normalize_genres_def)
  next
    case False
    then show ?thesis
      by (simp add: normalize_genres_def distinct_canonical_genres set_canonical_genres
          canonical_genres_order)
  qed
next
  show "case normalize_preferences raw of
         Inl e \<Rightarrow> True
       | Inr prefs \<Rightarrow> normalize_genres (req_genres raw) = Inr (c_genres prefs)"
    by (auto simp: normalize_preferences_def split: sum.splits)
qed

subsection \<open>Moods\<close>

lemma find_None_moods:
  assumes "\<forall>e\<in>set moods. lower e \<noteq> lower m"
  shows "normalize_mood m = Inl UnrecognizedMood"
proof -
  from assms have "find (\<lambda>e. lower e = lower m) moods = None"
    by (simp add: find_None_iff)
  then show ?thesis by (simp add: normalize_mood_def)
qed

lemma moods_lower_distinct: "distinct (map lower moods)"
  by (simp add: moods_def lower_def to_lower_def)

lemma moods_lower_inj:
  "e \<in> set moods \<Longrightarrow> e' \<in> set moods \<Longrightarrow> lower e = lower e' \<Longrightarrow> e = e'"
  using moods_lower_distinct by (auto simp: distinct_map dest: inj_onD)

lemma normalize_mood_match:
  assumes "e \<in> set moods" and "lower m = lower e"
  shows "normalize_mood m = Inr e"
proof -
  from assms have "\<exists>x\<in>set moods. lower x = lower m" by auto
  then obtain e' where f: "find (\<lambda>x. lower x = lower m) moods = Some e'"
    by (cases "find (\<lambda>x. lower x = lower m) moods") (auto simp: find_None_iff)
  then have "e' \<in> set moods" and "lower e' = lower m"
    by (auto simp: find_Some_iff)
  with assms have "e' = e" by (auto intro: moods_lower_inj)
  with f show ?thesis by (simp add: normalize_mood_def)
qed

lemma lower_Feel_good: "lower ''Feel-good'' = ''feel-good''"
  by (simp add: lower_def to_lower_def)

text \<open>
  C4. Moods are matched case-insensitively against the mood enumeration: a raw mood that
  is \<^verbatim>\<open>feel-good\<close> in any casing normalizes to the canonical \<^verbatim>\<open>Feel-good\<close>, and
  likewise every other entry is found from any casing of it; a raw mood that matches no
  entry fails with UnrecognizedMood, both in the mood rule and in the whole of
  normalize; and the mood of a successfully normalized request is the result of this
  rule.
\<close>

theorem C4_mood_case_insensitive:
  "(lower m = ''feel-good'' \<longrightarrow> normalize_mood m = Inr ''Feel-good'')
   \<and> (e \<in> set moods \<and> lower m = lower e \<longrightarrow> normalize_mood m = Inr e)
   \<and> ((\<forall>x\<in>set moods. lower x \<noteq> lower m) \<longrightarrow> normalize_mood m = Inl UnrecognizedMood)
   \<and> ((\<forall>x\<in>set moods. lower x \<noteq> lower (req_mood raw)) \<longrightarrow>
        normalize_preferences raw = Inl UnrecognizedMood)
   \<and> (case normalize_preferences raw of
         Inl k \<Rightarrow> True
       | Inr prefs \<Rightarrow> normalize_mood (req_mood raw) = Inr (c_mood prefs))"
proof (intro conjI impI)
  assume "lower m = ''feel-good''"
  then have "lower m = lower ''Feel-good''" by (simp add: lower_Feel_good)
  moreover have "''Feel-good'' \<in> set moods" by (simp add: moods_def)
  ultimately show "normalize_mood m = Inr ''Feel-good''"
    by (simp add: normalize_mood_match)
next
  assume "e \<in> set moods \<and> lower m = lower e"
  then show "normalize_mood m = Inr e" by (simp add: normalize_mood_match)
next
  assume "\<forall>x\<in>set moods. lower x \<noteq> lower m"
  then show "normalize_mood m = Inl UnrecognizedMood" by (rule find_None_moods)
next
  assume "\<forall>x\<in>set moods. lower x \<noteq> lower (req_mood raw)"
  then have "normalize_mood (req_mood raw) = Inl UnrecognizedMood" by (rule find_None_moods)
  then show "normalize_preferences raw = Inl UnrecognizedMood" by (simp add: normalize_preferences_def)
next
  show "case normalize_preferences raw of
         Inl k \<Rightarrow> True
       | Inr prefs \<Rightarrow> normalize_mood (req_mood raw) = Inr (c_mood prefs)"
    by (auto simp: normalize_preferences_def split: sum.splits)
qed

theorem C4_mood_case_insensitive_witness:
  "normalize_mood ''fEEL-GooD'' = Inr ''Feel-good''
   \<and> normalize_mood ''DARK'' = Inr ''Dark''
   \<and> normalize_mood ''Sad'' = Inl UnrecognizedMood
   \<and> normalize_preferences \<lparr>req_mood = ''Sad'', req_genres = [''Drama''], req_language = ''English'',
                 req_platform = ''Netflix''\<rparr> = Inl UnrecognizedMood"
proof -
  let ?raw = "\<lparr>req_mood = ''Sad'', req_genres = [''Drama''], req_language = ''English'',
                 req_platform = ''Netflix''\<rparr>"
  have h1: "lower ''fEEL-GooD'' = ''feel-good''" by (simp add: lower_def to_lower_def)
  have h2: "''Dark'' \<in> set moods \<and> lower ''DARK'' = lower ''Dark''"
    by (simp add: moods_def lower_def to_lower_def)
  have h3: "\<forall>x\<in>set moods. lower x \<noteq> lower ''Sad''"
    by (simp add: moods_def lower_def to_lower_def)
  have h4: "\<forall>x\<in>set moods. lower x \<noteq> lower (req_mood ?raw)"
    using h3 by simp
  note c = C4_mood_case_insensitive
  have a: "normalize_mood ''fEEL-GooD'' = Inr ''Feel-good''"
    by (rule c [THEN conjunct1, THEN mp, OF h1])
  have b: "normalize_mood ''DARK'' = Inr ''Dark''"
    by (rule c [THEN conjunct2, THEN conjunct1, THEN mp, OF h2])
  have d: "normalize_mood ''Sad'' = Inl UnrecognizedMood"
    by (rule c [THEN conjunct2, THEN conjunct2, THEN conjunct1, THEN mp, OF h3])
  have e: "normalize_preferences ?raw = Inl UnrecognizedMood"
    by (rule c [THEN conjunct2, THEN conjunct2, THEN conjunct2, THEN conjunct1, THEN mp, OF h4])
  from a b d e show ?thesis by simp
qed


end
